theory Spec2Isabelle
  imports Complex_Main
begin

section \<open>The document tree of the Figma viewer (src/src/App.js)\<close>

text \<open>
  The viewer receives a Figma document as JSON and reads these fields of a node:
  \<^verbatim>\<open>id\<close>, \<^verbatim>\<open>name\<close>, \<^verbatim>\<open>type\<close>, \<^verbatim>\<open>absoluteBoundingBox\<close>, \<^verbatim>\<open>fills\<close>, \<^verbatim>\<open>style\<close>,
  \<^verbatim>\<open>characters\<close> and \<^verbatim>\<open>children\<close>. A field that may be missing from the JSON object
  is an \<open>option\<close>; \<open>None\<close> is JavaScript's \<^verbatim>\<open>undefined\<close>.

  JavaScript numbers are modelled as \<open>real\<close>: the arithmetic is exact, and NaN, the
  infinities and the rounding of IEEE doubles are outside the model. The coordinates
  \<^verbatim>\<open>x\<close> and \<^verbatim>\<open>y\<close> of a bounding box are always present (the envelope computation reads
  them with no fallback), its \<^verbatim>\<open>width\<close> and \<^verbatim>\<open>height\<close> may be missing (every read has the
  fallback \<^verbatim>\<open>|| 0\<close>). A colour, when the fill carries one, has its four channels.
\<close>

record BoundingBox =
  box_x :: real
  box_y :: real
  box_width :: "real option"
  box_height :: "real option"

record Color =
  color_r :: real
  color_g :: real
  color_b :: real
  color_a :: real

record Fill =
  fill_type :: string
  fill_color :: "Color option"

record TextStyle =
  fontSize :: "real option"
  fontFamily :: "string option"

datatype DocumentNode =
  DocumentNode
    (node_id: string)
    (node_name: string)
    (node_type: string)
    (absoluteBoundingBox: "BoundingBox option")
    (fills: "Fill list option")
    (style: "TextStyle option")
    (characters: "string option")
    (children: "DocumentNode list option")

text \<open>The only exception the rendering code can raise: a property read on \<^verbatim>\<open>undefined\<close>.\<close>

datatype error = TypeError

section \<open>JavaScript operators\<close>

text \<open>
  \<^verbatim>\<open>v || d\<close> on a number that may be missing: \<^verbatim>\<open>undefined\<close> and \<^verbatim>\<open>0\<close> are falsy, so the
  default \<open>d\<close> is taken for both; every other number is returned as it is.
\<close>

definition or_num :: "real option \<Rightarrow> real \<Rightarrow> real" where
  "or_num v d = (case v of None \<Rightarrow> d | Some r \<Rightarrow> if r = 0 then d else r)"

text \<open>\<^verbatim>\<open>v || d\<close> on a string that may be missing: the empty string is falsy too.\<close>

definition or_str :: "string option \<Rightarrow> string \<Rightarrow> string" where
  "or_str v d = (case v of None \<Rightarrow> d | Some s \<Rightarrow> if s = [] then d else s)"

text \<open>\<^verbatim>\<open>Math.round\<close>: the nearest integer, a tie going up.\<close>

definition Math_round :: "real \<Rightarrow> int" where
  "Math_round v = \<lfloor>v + 1 / 2\<rfloor>"

section \<open>collectNodesWithBBox (App.js, lines 5-9)\<close>

text \<open>
  \<^verbatim>\<open>
  function collectNodesWithBBox(node, arr = []) {
    if (node.absoluteBoundingBox) arr.push(node);
    if (node.children) node.children.forEach(child => collectNodesWithBBox(child, arr));
    return arr;
  }
  \<close>
  The array \<open>arr\<close> is shared by all the calls and only grows at its end; the model passes
  it along and returns it.
\<close>

fun collectNodesWithBBox :: "DocumentNode \<Rightarrow> DocumentNode list \<Rightarrow> DocumentNode list" where
  "collectNodesWithBBox (DocumentNode i nm ty bb fl st ch kids) arr =
     (let node = DocumentNode i nm ty bb fl st ch kids;
          arr1 = (if bb \<noteq> None then arr @ [node] else arr)
      in case kids of
           None \<Rightarrow> arr1
         | Some cs \<Rightarrow> fold collectNodesWithBBox cs arr1)"

text \<open>
  The nodes of a tree in pre-order, depth first, the children in their stored order:
  the traversal order the specification names. Every node of the tree stands in this
  list once for each place it has in the tree.
\<close>

fun preorder :: "DocumentNode \<Rightarrow> DocumentNode list" where
  "preorder (DocumentNode i nm ty bb fl st ch kids) =
     DocumentNode i nm ty bb fl st ch kids #
       (case kids of None \<Rightarrow> [] | Some cs \<Rightarrow> concat (map preorder cs))"

section \<open>Style resolution (App.js, lines 20-22 and 36-37)\<close>

text \<open>
  The CSS colours the renderer writes: \<^verbatim>\<open>'transparent'\<close>, \<^verbatim>\<open>rgba(r,g,b,a)\<close> with the
  three rounded channels and the alpha as it came, and a literal such as \<^verbatim>\<open>'#222'\<close>.
\<close>

datatype css_color = Transparent | RGBA int int int real | Literal string

text \<open>
  \<^verbatim>\<open>
  background: node.fills && node.fills[0] && node.fills[0].type === 'SOLID'
    ? `rgba(${Math.round(node.fills[0].color.r * 255)},${Math.round(node.fills[0].color.g * 255)},
            ${Math.round(node.fills[0].color.b * 255)},${node.fills[0].color.a})`
    : 'transparent',
  \<close>
  An empty array is truthy and its element 0 is \<^verbatim>\<open>undefined\<close>. Nothing guards the read
  of \<^verbatim>\<open>color.r\<close>: on a SOLID fill with no \<^verbatim>\<open>color\<close> it raises a TypeError.
\<close>

definition resolveFill :: "Fill list option \<Rightarrow> error + css_color" where
  "resolveFill fl =
     (case fl of
        None \<Rightarrow> Inr Transparent
      | Some [] \<Rightarrow> Inr Transparent
      | Some (f # _) \<Rightarrow>
          if fill_type f = ''SOLID'' then
            (case fill_color f of
               None \<Rightarrow> Inl TypeError
             | Some c \<Rightarrow>
                 Inr (RGBA (Math_round (color_r c * 255)) (Math_round (color_g c * 255))
                        (Math_round (color_b c * 255)) (color_a c)))
          else Inr Transparent)"

text \<open>
  \<^verbatim>\<open>
  fontSize: (node.style?.fontSize || 16) * scale,
  fontFamily: node.style?.fontFamily || 'sans-serif',
  \<close>
  The resolved pair is (fontFamily, fontSize), before the size is scaled.
\<close>

definition resolveTextStyle :: "TextStyle option \<Rightarrow> string \<times> real" where
  "resolveTextStyle st =
     (or_str (Option.bind st fontFamily) ''sans-serif'', or_num (Option.bind st fontSize) 16)"

section \<open>FigmaNode (App.js, lines 11-49)\<close>

record Point =
  pt_x :: real
  pt_y :: real

text \<open>
  What a rendered \<^verbatim>\<open>div\<close> carries: its position and size on the screen and, for a
  rectangle, its background; for a text, its colour, font and characters.
\<close>

datatype VisualPrimitive =
  Rect (prim_left: real) (prim_top: real) (prim_width: real) (prim_height: real)
    (prim_background: css_color)
| TextBlock (prim_left: real) (prim_top: real) (prim_width: real) (prim_height: real)
    (prim_color: css_color) (prim_fontSize: real) (prim_fontFamily: string)
    (prim_text: "string option")

text \<open>
  React renders the elements of an array one after the other; an exception raised by one
  of them ends the rendering.
\<close>

fun concat_results :: "(error + 'a list) list \<Rightarrow> error + 'a list" where
  "concat_results [] = Inr []"
| "concat_results (Inl e # rs) = Inl e"
| "concat_results (Inr ps # rs) =
     (case concat_results rs of Inl e \<Rightarrow> Inl e | Inr qs \<Rightarrow> Inr (ps @ qs))"

text \<open>
  \<^verbatim>\<open>
  function FigmaNode({ node, offset, scale }) {
    if (node.type === 'RECTANGLE') {
      const style = {
        left: ((node.absoluteBoundingBox?.x || 0) - offset.x) * scale,
        top: ((node.absoluteBoundingBox?.y || 0) - offset.y) * scale,
        width: (node.absoluteBoundingBox?.width || 0) * scale,
        height: (node.absoluteBoundingBox?.height || 0) * scale,
        background: ..., };
      return <div style={style}></div>;
    }
    if (node.type === 'TEXT') {
      const style = { left: ..., top: ..., width: ..., height: ..., color: '#222',
        fontSize: (node.style?.fontSize || 16) * scale,
        fontFamily: node.style?.fontFamily || 'sans-serif', };
      return <div style={style}>{node.characters}</div>;
    }
    if (node.children) {
      return node.children.map(child => <FigmaNode node={child} offset={offset} scale={scale} />);
    }
    return null;
  }
  \<close>
  The parameters \<open>off\<close> and \<open>sc\<close> are the props \<^verbatim>\<open>offset\<close> and \<^verbatim>\<open>scale\<close>.
\<close>

fun FigmaNode :: "DocumentNode \<Rightarrow> Point \<Rightarrow> real \<Rightarrow> error + VisualPrimitive list" where
  "FigmaNode (DocumentNode i nm ty bb fl st ch kids) off sc =
     (if ty = ''RECTANGLE'' then
        (case resolveFill fl of
           Inl e \<Rightarrow> Inl e
         | Inr bg \<Rightarrow>
             Inr [Rect ((or_num (map_option box_x bb) 0 - pt_x off) * sc)
                       ((or_num (map_option box_y bb) 0 - pt_y off) * sc)
                       (or_num (Option.bind bb box_width) 0 * sc)
                       (or_num (Option.bind bb box_height) 0 * sc)
                       bg])
      else if ty = ''TEXT'' then
        Inr [TextBlock ((or_num (map_option box_x bb) 0 - pt_x off) * sc)
                       ((or_num (map_option box_y bb) 0 - pt_y off) * sc)
                       (or_num (Option.bind bb box_width) 0 * sc)
                       (or_num (Option.bind bb box_height) 0 * sc)
                       (Literal ''#222'')
                       (snd (resolveTextStyle st) * sc)
                       (fst (resolveTextStyle st))
                       ch]
      else
        (case kids of
           Some cs \<Rightarrow> concat_results (map (\<lambda>child. FigmaNode child off sc) cs)
         | None \<Rightarrow> Inr []))"

section \<open>The envelope (App.js, lines 92-119)\<close>

record Envelope =
  offset :: Point
  scale :: real
  viewWidth :: real
  viewHeight :: real

text \<open>
  \<^verbatim>\<open>Math.min(...xs)\<close> and \<^verbatim>\<open>Math.max(...xs)\<close> on a list of numbers. The envelope calls
  them on non-empty lists only (it returns before when \<^verbatim>\<open>nodes\<close> is empty).
\<close>

definition Math_min :: "real list \<Rightarrow> real" where
  "Math_min xs = Min (set xs)"

definition Math_max :: "real list \<Rightarrow> real" where
  "Math_max xs = Max (set xs)"

text \<open>
  \<^verbatim>\<open>
  const minX = Math.min(...nodes.map(n => n.absoluteBoundingBox.x));
  const minY = Math.min(...nodes.map(n => n.absoluteBoundingBox.y));
  const maxX = Math.max(...nodes.map(n => n.absoluteBoundingBox.x + (n.absoluteBoundingBox.width || 0)));
  const maxY = Math.max(...nodes.map(n => n.absoluteBoundingBox.y + (n.absoluteBoundingBox.height || 0)));
  const pageWidth = (maxX - minX) || 1;
  const pageHeight = (maxY - minY) || 1;
  \<close>
  as functions of the bounding boxes of \<^verbatim>\<open>nodes\<close>.
\<close>

definition minX :: "BoundingBox list \<Rightarrow> real" where
  "minX boxes = Math_min (map box_x boxes)"

definition minY :: "BoundingBox list \<Rightarrow> real" where
  "minY boxes = Math_min (map box_y boxes)"

definition maxX :: "BoundingBox list \<Rightarrow> real" where
  "maxX boxes = Math_max (map (\<lambda>b. box_x b + or_num (box_width b) 0) boxes)"

definition maxY :: "BoundingBox list \<Rightarrow> real" where
  "maxY boxes = Math_max (map (\<lambda>b. box_y b + or_num (box_height b) 0) boxes)"

definition pageWidth :: "BoundingBox list \<Rightarrow> real" where
  "pageWidth boxes = or_num (Some (maxX boxes - minX boxes)) 1"

definition pageHeight :: "BoundingBox list \<Rightarrow> real" where
  "pageHeight boxes = or_num (Some (maxY boxes - minY boxes)) 1"

text \<open>
  \<^verbatim>\<open>
  let newScale = 1;
  if (pageWidth > targetViewWidth || pageHeight > targetViewHeight) {
      newScale = Math.min(targetViewWidth / pageWidth, targetViewHeight / pageHeight);
  }
  \<close>
\<close>

definition newScale :: "real \<Rightarrow> real \<Rightarrow> real \<Rightarrow> real \<Rightarrow> real" where
  "newScale pw ph targetViewWidth targetViewHeight =
     (if pw > targetViewWidth \<or> ph > targetViewHeight
      then min (targetViewWidth / pw) (targetViewHeight / ph)
      else 1)"

text \<open>
  The body of the \<^verbatim>\<open>useMemo\<close> that computes \<^verbatim>\<open>{ offset, scale, viewWidth, viewHeight }\<close>
  for a selected page. The source fixes \<^verbatim>\<open>targetViewWidth = 900\<close> and
  \<^verbatim>\<open>targetViewHeight = 600\<close>; here they are parameters, and \<open>envelope\<close> below is the
  source's instance. Reading \<^verbatim>\<open>n.absoluteBoundingBox.x\<close> on a node with no bounding box
  would raise a TypeError, so the result is a sum.
\<close>

definition computeEnvelope :: "DocumentNode \<Rightarrow> real \<Rightarrow> real \<Rightarrow> error + Envelope" where
  "computeEnvelope selectedPage targetViewWidth targetViewHeight =
     (let nodes = collectNodesWithBBox selectedPage [] in
      if nodes = [] then
        Inr \<lparr>offset = \<lparr>pt_x = 0, pt_y = 0\<rparr>, scale = 1,
             viewWidth = targetViewWidth, viewHeight = targetViewHeight\<rparr>
      else
        (case those (map absoluteBoundingBox nodes) of
           None \<Rightarrow> Inl TypeError
         | Some boxes \<Rightarrow>
             Inr \<lparr>offset = \<lparr>pt_x = minX boxes, pt_y = minY boxes\<rparr>,
                  scale = newScale (pageWidth boxes) (pageHeight boxes)
                            targetViewWidth targetViewHeight,
                  viewWidth = targetViewWidth, viewHeight = targetViewHeight\<rparr>))"

definition envelope :: "DocumentNode option \<Rightarrow> error + Envelope" where
  "envelope selectedPage =
     (case selectedPage of
        None \<Rightarrow> Inr \<lparr>offset = \<lparr>pt_x = 0, pt_y = 0\<rparr>, scale = 1,
                     viewWidth = 900, viewHeight = 600\<rparr>
      | Some page \<Rightarrow> computeEnvelope page 900 600)"

section \<open>Notions of the specification\<close>

text \<open>
  The bounding boxes carried by the nodes of a tree, in pre-order: the "boxed nodes" of
  the specification, each by its box.
\<close>

definition boxes_of :: "DocumentNode \<Rightarrow> BoundingBox list" where
  "boxes_of page = List.map_filter absoluteBoundingBox (preorder page)"

text \<open>
  Every boxed node of the tree has a non-negative width and height, a missing one
  counting as 0 (as the envelope reads it).
\<close>

definition nonneg_sizes :: "DocumentNode \<Rightarrow> bool" where
  "nonneg_sizes page =
     list_all (\<lambda>b. 0 \<le> or_num (box_width b) 0 \<and> 0 \<le> or_num (box_height b) 0) (boxes_of page)"

text \<open>The box fields of a node as the specification reads them: an absent field is 0.\<close>

definition boxX :: "DocumentNode \<Rightarrow> real" where
  "boxX n = (case absoluteBoundingBox n of None \<Rightarrow> 0 | Some b \<Rightarrow> box_x b)"

definition boxY :: "DocumentNode \<Rightarrow> real" where
  "boxY n = (case absoluteBoundingBox n of None \<Rightarrow> 0 | Some b \<Rightarrow> box_y b)"

definition boxWidth :: "DocumentNode \<Rightarrow> real" where
  "boxWidth n =
     (case absoluteBoundingBox n of
        None \<Rightarrow> 0
      | Some b \<Rightarrow> (case box_width b of None \<Rightarrow> 0 | Some w \<Rightarrow> w))"

definition boxHeight :: "DocumentNode \<Rightarrow> real" where
  "boxHeight n =
     (case absoluteBoundingBox n of
        None \<Rightarrow> 0
      | Some b \<Rightarrow> (case box_height b of None \<Rightarrow> 0 | Some h \<Rightarrow> h))"

section \<open>Sample documents\<close>

abbreviation sample_rect :: DocumentNode where
  "sample_rect \<equiv>
     DocumentNode ''1:2'' ''card'' ''RECTANGLE''
       (Some \<lparr>box_x = 10, box_y = 20, box_width = Some 100, box_height = Some 50\<rparr>)
       None None None None"

abbreviation sample_text :: DocumentNode where
  "sample_text \<equiv>
     DocumentNode ''1:3'' ''label'' ''TEXT''
       (Some \<lparr>box_x = 30, box_y = 5, box_width = Some 40, box_height = None\<rparr>)
       None (Some \<lparr>fontSize = Some 12, fontFamily = None\<rparr>) (Some ''Hi'') None"

abbreviation sample_page :: DocumentNode where
  "sample_page \<equiv>
     DocumentNode ''0:1'' ''Page 1'' ''CANVAS'' None None None None
       (Some [sample_rect,
              DocumentNode ''1:4'' ''group'' ''GROUP'' None None None None (Some [sample_text])])"

abbreviation empty_page :: DocumentNode where
  "empty_page \<equiv>
     DocumentNode ''0:2'' ''Page 2'' ''CANVAS'' None None None None
       (Some [DocumentNode ''1:5'' ''frame'' ''FRAME'' None None None None None])"

abbreviation wide_page :: DocumentNode where
  "wide_page \<equiv>
     DocumentNode ''0:3'' ''Page 3'' ''CANVAS'' None None None None
       (Some [DocumentNode ''1:6'' ''banner'' ''RECTANGLE''
                (Some \<lparr>box_x = 100, box_y = 40, box_width = Some 1800, box_height = Some 600\<rparr>)
                None None None None])"

abbreviation uncoloured_rect :: DocumentNode where
  "uncoloured_rect \<equiv>
     DocumentNode ''1:7'' ''swatch'' ''RECTANGLE''
       (Some \<lparr>box_x = 0, box_y = 0, box_width = Some 10, box_height = Some 10\<rparr>)
       (Some [\<lparr>fill_type = ''SOLID'', fill_color = None\<rparr>]) None None None"

abbreviation tiny_page :: DocumentNode where
  "tiny_page \<equiv>
     DocumentNode ''0:5'' ''Page 5'' ''CANVAS'' None None None None
       (Some [DocumentNode ''1:8'' ''dot'' ''RECTANGLE''
                (Some \<lparr>box_x = 0, box_y = 0, box_width = Some (1 / 2), box_height = Some 2\<rparr>)
                None None None None])"

abbreviation unboxed_rect :: DocumentNode where
  "unboxed_rect \<equiv> DocumentNode ''1:9'' ''ghost'' ''RECTANGLE'' None None None None None"

section \<open>The collector\<close>

lemma fold_collect:
  assumes "\<And>c acc. c \<in> set cs \<Longrightarrow> collectNodesWithBBox c acc = acc @ F c"
  shows "fold collectNodesWithBBox cs arr = arr @ concat (map F cs)"
  using assms by (induction cs arbitrary: arr) simp_all

text \<open>A call appends to the array the boxed nodes of its subtree, in pre-order.\<close>

lemma collect_append:
  "collectNodesWithBBox n arr = arr @ filter (\<lambda>m. absoluteBoundingBox m \<noteq> None) (preorder n)"
proof (induction n arr rule: collectNodesWithBBox.induct)
  case (1 i nm ty bb fl st ch kids arr)
  show ?case
  proof (cases kids)
    case None
    then show ?thesis by simp
  next
    case (Some cs)
    have "fold collectNodesWithBBox cs acc =
            acc @ concat (map (\<lambda>c. filter (\<lambda>m. absoluteBoundingBox m \<noteq> None) (preorder c)) cs)"
      for acc
      by (rule fold_collect) (use 1 Some in auto)
    then show ?thesis using Some by (simp add: filter_concat comp_def)
  qed
qed

text \<open>
  C2. For every tree, \<open>collectNodesWithBBox\<close> (the specification's collectBoxed) returns
  exactly the nodes that carry a bounding box, in the order of the pre-order traversal
  of the tree, each place of the tree contributing once; and the result is empty if and
  only if no node of the tree, the root included, carries a box.
\<close>

theorem collectNodesWithBBox_preorder:
  "collectNodesWithBBox page [] =
     filter (\<lambda>n. absoluteBoundingBox n \<noteq> None) (preorder page) \<and>
   (collectNodesWithBBox page [] = [] \<longleftrightarrow>
      (\<forall>n \<in> set (preorder page). absoluteBoundingBox n = None))"
  by (auto simp: collect_append filter_empty_conv)

theorem collectNodesWithBBox_preorder_witness:
  "collectNodesWithBBox sample_page [] = [sample_rect, sample_text] \<and>
   list_all (\<lambda>n. absoluteBoundingBox n = None) (preorder empty_page) \<and>
   collectNodesWithBBox empty_page [] = []"
proof -
  have none: "\<forall>n \<in> set (preorder empty_page). absoluteBoundingBox n = None"
    by simp
  have "collectNodesWithBBox empty_page [] = []"
    using collectNodesWithBBox_preorder [of empty_page] none by blast
  moreover have "collectNodesWithBBox sample_page [] = [sample_rect, sample_text]"
    using collectNodesWithBBox_preorder [of sample_page] by simp
  ultimately show ?thesis by simp
qed

section \<open>The envelope\<close>

lemma those_filter:
  "those (map f (filter (\<lambda>x. f x \<noteq> None) xs)) = Some (List.map_filter f xs)"
  by (induction xs) (auto split: option.splits)

text \<open>Every collected node has its bounding box: the envelope never reads a missing one.\<close>

lemma those_collect:
  "those (map absoluteBoundingBox (collectNodesWithBBox page [])) = Some (boxes_of page)"
  unfolding collect_append boxes_of_def by (simp only: append_Nil those_filter)

lemma collect_empty_iff: "collectNodesWithBBox page [] = [] \<longleftrightarrow> boxes_of page = []"
  by (auto simp: collect_append boxes_of_def List.map_filter_def filter_empty_conv)

lemma computeEnvelope_eq:
  "computeEnvelope page W H =
     Inr (if boxes_of page = [] then
            \<lparr>offset = \<lparr>pt_x = 0, pt_y = 0\<rparr>, scale = 1, viewWidth = W, viewHeight = H\<rparr>
          else
            \<lparr>offset = \<lparr>pt_x = minX (boxes_of page), pt_y = minY (boxes_of page)\<rparr>,
             scale = newScale (pageWidth (boxes_of page)) (pageHeight (boxes_of page)) W H,
             viewWidth = W, viewHeight = H\<rparr>)"
  by (simp add: computeEnvelope_def Let_def those_collect collect_empty_iff)

lemma mem_boxes_of:
  "n \<in> set (preorder page) \<Longrightarrow> absoluteBoundingBox n = Some b \<Longrightarrow> b \<in> set (boxes_of page)"
  by (force simp: boxes_of_def List.map_filter_def)

lemma Math_min_le: "b \<in> set bs \<Longrightarrow> Math_min (map f bs) \<le> f b"
  by (simp add: Math_min_def)

lemma le_Math_max: "b \<in> set bs \<Longrightarrow> f b \<le> Math_max (map f bs)"
  by (simp add: Math_max_def)

lemma extent_x_nonneg:
  assumes "bs \<noteq> []" "\<forall>b \<in> set bs. 0 \<le> or_num (box_width b) 0"
  shows "0 \<le> maxX bs - minX bs"
proof -
  from assms(1) obtain b where b: "b \<in> set bs" by (cases bs) auto
  have "minX bs \<le> box_x b" unfolding minX_def using b by (rule Math_min_le)
  moreover have "box_x b + or_num (box_width b) 0 \<le> maxX bs"
    unfolding maxX_def using b by (rule le_Math_max)
  moreover have "0 \<le> or_num (box_width b) 0" using assms(2) b by blast
  ultimately show ?thesis by linarith
qed

lemma extent_y_nonneg:
  assumes "bs \<noteq> []" "\<forall>b \<in> set bs. 0 \<le> or_num (box_height b) 0"
  shows "0 \<le> maxY bs - minY bs"
proof -
  from assms(1) obtain b where b: "b \<in> set bs" by (cases bs) auto
  have "minY bs \<le> box_y b" unfolding minY_def using b by (rule Math_min_le)
  moreover have "box_y b + or_num (box_height b) 0 \<le> maxY bs"
    unfolding maxY_def using b by (rule le_Math_max)
  moreover have "0 \<le> or_num (box_height b) 0" using assms(2) b by blast
  ultimately show ?thesis by linarith
qed

lemma or_num_pos: "0 \<le> v \<Longrightarrow> 0 < or_num (Some v) 1"
  by (simp add: or_num_def)

lemma or_num_0: "or_num v 0 = (case v of None \<Rightarrow> 0 | Some r \<Rightarrow> r)"
  by (simp add: or_num_def split: option.splits)

lemma newScale_le_1: "0 < W \<Longrightarrow> 0 < H \<Longrightarrow> newScale pw ph W H \<le> 1"
  unfolding newScale_def by (auto simp: min_le_iff_disj divide_le_eq_1)

lemma newScale_pos: "0 < pw \<Longrightarrow> 0 < ph \<Longrightarrow> 0 < W \<Longrightarrow> 0 < H \<Longrightarrow> 0 < newScale pw ph W H"
  by (simp add: newScale_def)

lemmas envelope_eval =
  boxes_of_def minX_def minY_def maxX_def maxY_def Math_min_def Math_max_def
  pageWidth_def pageHeight_def or_num_def newScale_def nonneg_sizes_def

text \<open>
  C1. For every tree and every viewport with positive width and height,
  \<open>computeEnvelope\<close> returns an envelope whose scale is at most 1; the scale is 1 when
  the tree has no boxed node, and when it has one, the scale is 1 if the derived \<open>pageWidth\<close> is at most the viewport's width
  and \<open>pageHeight\<close> at most its height (equality included), and
  \<open>min (W / pageWidth) (H / pageHeight)\<close> otherwise. (The bound holds whatever the signs
  of the widths and heights are, so their non-negativity is not assumed.)
\<close>

theorem computeEnvelope_scale:
  assumes "0 < W" "0 < H"
  shows "\<exists>env. computeEnvelope page W H = Inr env \<and> scale env \<le> 1 \<and>
           (boxes_of page = [] \<longrightarrow> scale env = 1) \<and>
           (boxes_of page \<noteq> [] \<longrightarrow>
              scale env =
                (if pageWidth (boxes_of page) \<le> W \<and> pageHeight (boxes_of page) \<le> H then 1
                 else min (W / pageWidth (boxes_of page)) (H / pageHeight (boxes_of page))))"
  using newScale_le_1 [OF assms]
  by (auto simp: computeEnvelope_eq) (auto simp: newScale_def)

theorem computeEnvelope_scale_witness:
  "(0::real) < 900 \<and> (0::real) < 600 \<and>
   computeEnvelope wide_page 900 600 =
     Inr \<lparr>offset = \<lparr>pt_x = 100, pt_y = 40\<rparr>, scale = 1 / 2,
          viewWidth = 900, viewHeight = 600\<rparr> \<and>
   pageWidth (boxes_of wide_page) = 1800 \<and> pageHeight (boxes_of wide_page) = 600 \<and>
   1 / 2 = min ((900::real) / 1800) (600 / 600)"
  using computeEnvelope_scale [of 900 600 wide_page]
  by (simp add: computeEnvelope_eq envelope_eval)

text \<open>
  C9. For every viewport and every tree none of whose nodes carries a bounding box,
  \<open>computeEnvelope\<close> returns a value, not an error: the offset (0, 0), the scale 1 and
  the viewport's dimensions as they were given; in the source's instance these are
  900 and 600.
\<close>

theorem computeEnvelope_no_boxed_node:
  assumes "\<forall>n \<in> set (preorder page). absoluteBoundingBox n = None"
  shows "computeEnvelope page W H =
           Inr \<lparr>offset = \<lparr>pt_x = 0, pt_y = 0\<rparr>, scale = 1, viewWidth = W, viewHeight = H\<rparr> \<and>
         envelope (Some page) =
           Inr \<lparr>offset = \<lparr>pt_x = 0, pt_y = 0\<rparr>, scale = 1, viewWidth = 900, viewHeight = 600\<rparr>"
proof -
  have "boxes_of page = []"
    using assms by (auto simp: boxes_of_def List.map_filter_def filter_empty_conv)
  then show ?thesis by (simp add: computeEnvelope_eq envelope_def)
qed

theorem computeEnvelope_no_boxed_node_witness:
  "list_all (\<lambda>n. absoluteBoundingBox n = None) (preorder empty_page) \<and>
   computeEnvelope empty_page 1024 768 =
     Inr \<lparr>offset = \<lparr>pt_x = 0, pt_y = 0\<rparr>, scale = 1, viewWidth = 1024, viewHeight = 768\<rparr>"
proof -
  have none: "\<forall>n \<in> set (preorder empty_page). absoluteBoundingBox n = None"
    by simp
  from computeEnvelope_no_boxed_node [OF none, of 1024 768] show ?thesis
    by simp
qed

text \<open>
  C7, as the code has it. For every tree with at least one boxed node, the scale of the
  envelope is formed from \<open>pageWidth\<close> and \<open>pageHeight\<close>, where \<open>pageWidth\<close> is the
  extent \<open>maxX - minX\<close> when that is not 0, and 1 when it is 0 (likewise \<open>pageHeight\<close>):
  \<^verbatim>\<open>(maxX - minX) || 1\<close> replaces a zero extent only. So neither is ever 0, and each
  equals \<open>max extent 1\<close> when the extent is 0 or at least 1. An extent strictly between
  0 and 1 is kept as it is, not raised to 1.
\<close>

theorem pageWidth_pageHeight_zero_extent:
  assumes "boxes_of page \<noteq> []"
  shows "(\<exists>env. computeEnvelope page W H = Inr env \<and>
            scale env = newScale (pageWidth (boxes_of page)) (pageHeight (boxes_of page)) W H) \<and>
         pageWidth (boxes_of page) =
           (if maxX (boxes_of page) - minX (boxes_of page) = 0 then 1
            else maxX (boxes_of page) - minX (boxes_of page)) \<and>
         pageHeight (boxes_of page) =
           (if maxY (boxes_of page) - minY (boxes_of page) = 0 then 1
            else maxY (boxes_of page) - minY (boxes_of page)) \<and>
         pageWidth (boxes_of page) \<noteq> 0 \<and> pageHeight (boxes_of page) \<noteq> 0 \<and>
         (maxX (boxes_of page) - minX (boxes_of page) = 0 \<or>
          1 \<le> maxX (boxes_of page) - minX (boxes_of page) \<longrightarrow>
            pageWidth (boxes_of page) = max (maxX (boxes_of page) - minX (boxes_of page)) 1) \<and>
         (maxY (boxes_of page) - minY (boxes_of page) = 0 \<or>
          1 \<le> maxY (boxes_of page) - minY (boxes_of page) \<longrightarrow>
            pageHeight (boxes_of page) = max (maxY (boxes_of page) - minY (boxes_of page)) 1)"
  using assms by (auto simp: computeEnvelope_eq pageWidth_def pageHeight_def or_num_def)

theorem pageWidth_pageHeight_zero_extent_witness:
  "boxes_of sample_page \<noteq> [] \<and>
   maxX (boxes_of sample_page) - minX (boxes_of sample_page) = 100 \<and>
   pageWidth (boxes_of sample_page) = 100 \<and>
   maxY (boxes_of sample_page) - minY (boxes_of sample_page) = 65 \<and>
   pageHeight (boxes_of sample_page) = 65"
proof -
  have ne: "boxes_of sample_page \<noteq> []"
    by (simp add: boxes_of_def)
  have "maxX (boxes_of sample_page) - minX (boxes_of sample_page) = 100"
    and "maxY (boxes_of sample_page) - minY (boxes_of sample_page) = 65"
    by (simp_all add: envelope_eval)
  with pageWidth_pageHeight_zero_extent [OF ne, of 900 600] ne show ?thesis
    by simp
qed

text \<open>
  The page \<open>tiny_page\<close> has one boxed node, of width 1/2: its extent 1/2 is below 1
  and \<open>pageWidth\<close> is 1/2, where the floor \<open>max extent 1\<close> would be 1.
\<close>

theorem pageWidth_fractional_extent:
  "boxes_of tiny_page \<noteq> [] \<and>
   maxX (boxes_of tiny_page) - minX (boxes_of tiny_page) = 1 / 2 \<and>
   pageWidth (boxes_of tiny_page) = 1 / 2 \<and>
   max (maxX (boxes_of tiny_page) - minX (boxes_of tiny_page)) 1 = 1 \<and>
   pageWidth (boxes_of tiny_page) \<noteq> max (maxX (boxes_of tiny_page) - minX (boxes_of tiny_page)) 1"
  by (simp add: envelope_eval)

section \<open>The projection\<close>

lemma node_geometry:
  "or_num (map_option box_x (absoluteBoundingBox n)) 0 = boxX n"
  "or_num (map_option box_y (absoluteBoundingBox n)) 0 = boxY n"
  "or_num (Option.bind (absoluteBoundingBox n) box_width) 0 = boxWidth n"
  "or_num (Option.bind (absoluteBoundingBox n) box_height) 0 = boxHeight n"
  by (simp_all add: or_num_0 boxX_def boxY_def boxWidth_def boxHeight_def split: option.splits)

text \<open>The three branches of \<open>FigmaNode\<close>, by the type tag of the node.\<close>

lemma FigmaNode_RECTANGLE:
  "node_type n = ''RECTANGLE'' \<Longrightarrow>
   FigmaNode n off sc =
     (case resolveFill (fills n) of
        Inl e \<Rightarrow> Inl e
      | Inr bg \<Rightarrow>
          Inr [Rect ((boxX n - pt_x off) * sc) ((boxY n - pt_y off) * sc)
                 (boxWidth n * sc) (boxHeight n * sc) bg])"
  using node_geometry [of n] by (cases n) (auto split: sum.splits)

lemma FigmaNode_TEXT:
  "node_type n = ''TEXT'' \<Longrightarrow>
   FigmaNode n off sc =
     Inr [TextBlock ((boxX n - pt_x off) * sc) ((boxY n - pt_y off) * sc)
            (boxWidth n * sc) (boxHeight n * sc) (Literal ''#222'')
            (snd (resolveTextStyle (style n)) * sc) (fst (resolveTextStyle (style n)))
            (characters n)]"
  using node_geometry [of n] by (cases n) simp

lemma FigmaNode_other:
  "node_type n \<noteq> ''RECTANGLE'' \<Longrightarrow> node_type n \<noteq> ''TEXT'' \<Longrightarrow>
   FigmaNode n off sc =
     (case children n of
        None \<Rightarrow> Inr []
      | Some cs \<Rightarrow> concat_results (map (\<lambda>child. FigmaNode child off sc) cs))"
  by (cases n) simp

lemma concat_results_mem:
  "concat_results rs = Inr ps \<Longrightarrow> p \<in> set ps \<Longrightarrow> \<exists>qs. Inr qs \<in> set rs \<and> p \<in> set qs"
proof (induction rs arbitrary: ps)
  case Nil
  then show ?case by simp
next
  case (Cons r rs)
  then show ?case
    by (cases r) (fastforce split: sum.splits)+
qed

text \<open>
  Every primitive of a projected tree is the primitive of one of its RECTANGLE or TEXT
  nodes.
\<close>

lemma FigmaNode_primitive_origin:
  "FigmaNode page off sc = Inr ps \<Longrightarrow> p \<in> set ps \<Longrightarrow>
   \<exists>n \<in> set (preorder page).
     (node_type n = ''RECTANGLE'' \<or> node_type n = ''TEXT'') \<and> FigmaNode n off sc = Inr [p]"
proof (induction page off sc arbitrary: ps rule: FigmaNode.induct)
  case (1 i nm ty bb fl st ch kids off sc)
  let ?n = "DocumentNode i nm ty bb fl st ch kids"
  show ?case
  proof (cases "ty = ''RECTANGLE'' \<or> ty = ''TEXT''")
    case True
    then have "FigmaNode ?n off sc = Inr [p]"
      using "1.prems" by (auto split: sum.splits)
    with True show ?thesis by (intro bexI [of _ ?n]) simp_all
  next
    case False
    then have nr: "ty \<noteq> ''RECTANGLE''" and nt: "ty \<noteq> ''TEXT''" by simp_all
    show ?thesis
    proof (cases kids)
      case None
      with False "1.prems" show ?thesis by simp
    next
      case (Some cs)
      with False "1.prems"
      have "concat_results (map (\<lambda>child. FigmaNode child off sc) cs) = Inr ps"
        by simp
      from concat_results_mem [OF this "1.prems"(2)]
      obtain c qs where c: "c \<in> set cs" "FigmaNode c off sc = Inr qs" "p \<in> set qs"
        by (auto simp: image_iff) metis
      from "1.IH" [OF nr nt Some c(1) c(2) c(3)]
      obtain n where "n \<in> set (preorder c)"
        "node_type n = ''RECTANGLE'' \<or> node_type n = ''TEXT''" "FigmaNode n off sc = Inr [p]"
        by blast
      with c(1) Some show ?thesis by auto
    qed
  qed
qed

text \<open>
  C10. For every tree whose boxed nodes have non-negative widths and heights and every
  viewport with positive width and height, \<open>computeEnvelope\<close> returns an envelope of
  positive scale, and for every node of the tree that carries a bounding box and is a
  RECTANGLE or a TEXT (so that \<open>FigmaNode\<close> emits a primitive for it), the primitive
  emitted under the envelope's offset and scale has a left and a top that are not
  negative.
\<close>

theorem computeEnvelope_FigmaNode_nonneg:
  assumes "nonneg_sizes page" "0 < W" "0 < H"
  shows "\<exists>env. computeEnvelope page W H = Inr env \<and> 0 < scale env \<and>
           (\<forall>n \<in> set (preorder page).
              absoluteBoundingBox n \<noteq> None \<longrightarrow>
              node_type n = ''RECTANGLE'' \<or> node_type n = ''TEXT'' \<longrightarrow>
              (\<forall>ps. FigmaNode n (offset env) (scale env) = Inr ps \<longrightarrow>
                 (\<forall>p \<in> set ps. 0 \<le> prim_left p \<and> 0 \<le> prim_top p)))"
proof (cases "boxes_of page = []")
  case True
  then have "\<And>n. n \<in> set (preorder page) \<Longrightarrow> absoluteBoundingBox n = None"
    using mem_boxes_of by fastforce
  then show ?thesis by (simp add: computeEnvelope_eq True)
next
  case False
  let ?bs = "boxes_of page"
  let ?sc = "newScale (pageWidth ?bs) (pageHeight ?bs) W H"
  have w: "\<forall>b \<in> set ?bs. 0 \<le> or_num (box_width b) 0"
    and h: "\<forall>b \<in> set ?bs. 0 \<le> or_num (box_height b) 0"
    using assms(1) by (auto simp: nonneg_sizes_def list_all_iff)
  have "0 < pageWidth ?bs" "0 < pageHeight ?bs"
    unfolding pageWidth_def pageHeight_def
    using extent_x_nonneg [OF False w] extent_y_nonneg [OF False h] by (auto intro: or_num_pos)
  then have sc: "0 < ?sc" using assms(2,3) by (rule newScale_pos)
  have prims: "0 \<le> prim_left p \<and> 0 \<le> prim_top p"
    if n: "n \<in> set (preorder page)" and bb: "absoluteBoundingBox n \<noteq> None"
      and ty: "node_type n = ''RECTANGLE'' \<or> node_type n = ''TEXT''"
      and ps: "FigmaNode n \<lparr>pt_x = minX ?bs, pt_y = minY ?bs\<rparr> ?sc = Inr ps"
      and p: "p \<in> set ps"
    for n ps p
  proof -
    from bb obtain b where b: "absoluteBoundingBox n = Some b" by auto
    then have mem: "b \<in> set ?bs" using n mem_boxes_of by blast
    have x: "0 \<le> box_x b - minX ?bs"
      unfolding minX_def using Math_min_le [OF mem, of box_x] by simp
    have y: "0 \<le> box_y b - minY ?bs"
      unfolding minY_def using Math_min_le [OF mem, of box_y] by simp
    have "0 \<le> (box_x b - minX ?bs) * ?sc" "0 \<le> (box_y b - minY ?bs) * ?sc"
      using x y sc by simp_all
    then show ?thesis
      using ps p b ty by (cases n) (auto simp: or_num_0 split: sum.splits if_splits)
  qed
  show ?thesis using sc prims by (simp add: computeEnvelope_eq False)
qed

theorem computeEnvelope_FigmaNode_nonneg_witness:
  "nonneg_sizes sample_page \<and> (0::real) < 900 \<and> (0::real) < 600 \<and>
   computeEnvelope sample_page 900 600 =
     Inr \<lparr>offset = \<lparr>pt_x = 10, pt_y = 5\<rparr>, scale = 1, viewWidth = 900, viewHeight = 600\<rparr> \<and>
   FigmaNode sample_rect \<lparr>pt_x = 10, pt_y = 5\<rparr> 1 = Inr [Rect 0 15 100 50 Transparent] \<and>
   FigmaNode sample_text \<lparr>pt_x = 10, pt_y = 5\<rparr> 1 =
     Inr [TextBlock 20 0 40 0 (Literal ''#222'') 12 ''sans-serif'' (Some ''Hi'')]"
  using computeEnvelope_FigmaNode_nonneg [of sample_page 900 600]
  by (simp add: computeEnvelope_eq envelope_eval resolveFill_def resolveTextStyle_def or_str_def)

text \<open>
  C4. For every RECTANGLE node and envelope, the Rect that \<open>FigmaNode\<close> emits has the
  left \<open>(boxX - offset.x) * scale\<close>, the top \<open>(boxY - offset.y) * scale\<close>, the width
  \<open>boxWidth * scale\<close> and the height \<open>boxHeight * scale\<close>, an absent box field being 0;
  and the rectangle with the box (10, 20, 100, 50) under the offset (0, 0) and the
  scale 1 gives one Rect at (10, 20, 100, 50).
\<close>

theorem FigmaNode_rectangle_coordinates:
  "(node_type n = ''RECTANGLE'' \<longrightarrow> FigmaNode n off sc = Inr ps \<longrightarrow>
      (\<exists>bg. ps = [Rect ((boxX n - pt_x off) * sc) ((boxY n - pt_y off) * sc)
                      (boxWidth n * sc) (boxHeight n * sc) bg])) \<and>
   FigmaNode sample_rect \<lparr>pt_x = 0, pt_y = 0\<rparr> 1 = Inr [Rect 10 20 100 50 Transparent]"
  by (auto simp: FigmaNode_RECTANGLE resolveFill_def or_num_def split: sum.splits)

theorem FigmaNode_rectangle_coordinates_witness:
  "node_type sample_rect = ''RECTANGLE'' \<and>
   FigmaNode sample_rect \<lparr>pt_x = 10, pt_y = 10\<rparr> 2 = Inr [Rect 0 20 200 100 Transparent] \<and>
   node_type unboxed_rect = ''RECTANGLE'' \<and>
   FigmaNode unboxed_rect \<lparr>pt_x = 10, pt_y = 10\<rparr> 2 = Inr [Rect (- 20) (- 20) 0 0 Transparent]"
proof -
  have boxed: "FigmaNode sample_rect \<lparr>pt_x = 10, pt_y = 10\<rparr> 2 = Inr [Rect 0 20 200 100 Transparent]"
    by (simp add: resolveFill_def or_num_def)
  have unboxed:
    "FigmaNode unboxed_rect \<lparr>pt_x = 10, pt_y = 10\<rparr> 2 = Inr [Rect (- 20) (- 20) 0 0 Transparent]"
    by (simp add: resolveFill_def or_num_def)
  from FigmaNode_rectangle_coordinates
         [of sample_rect "\<lparr>pt_x = 10, pt_y = 10\<rparr>" 2 "[Rect 0 20 200 100 Transparent]"]
       FigmaNode_rectangle_coordinates
         [of unboxed_rect "\<lparr>pt_x = 10, pt_y = 10\<rparr>" 2 "[Rect (- 20) (- 20) 0 0 Transparent]"]
       boxed unboxed
  show ?thesis by simp
qed

subsection \<open>Dispatch on the type tag\<close>

text \<open>
  A RECTANGLE or TEXT node is rendered without a look at its children; any other node
  is rendered as its children, one after the other, whatever its type tag says.
\<close>

lemma FigmaNode_children_ignored:
  "ty = ''RECTANGLE'' \<or> ty = ''TEXT'' \<Longrightarrow>
   FigmaNode (DocumentNode i nm ty bb fl st ch kids) off sc =
   FigmaNode (DocumentNode i nm ty bb fl st ch kids') off sc"
  by auto

lemma FigmaNode_unknown_as_container:
  "node_type a \<noteq> ''RECTANGLE'' \<Longrightarrow> node_type a \<noteq> ''TEXT'' \<Longrightarrow>
   node_type b \<noteq> ''RECTANGLE'' \<Longrightarrow> node_type b \<noteq> ''TEXT'' \<Longrightarrow>
   children a = children b \<Longrightarrow> FigmaNode a off sc = FigmaNode b off sc"
  by (simp add: FigmaNode_other)

lemma concat_results_Inr: "concat_results (map Inr pss) = Inr (concat pss)"
  by (induction pss) simp_all

lemma FigmaNode_container_concat:
  assumes "node_type n \<noteq> ''RECTANGLE''" "node_type n \<noteq> ''TEXT''" "children n = Some cs"
    and "\<And>c. c \<in> set cs \<Longrightarrow> FigmaNode c off sc = Inr (f c)"
  shows "FigmaNode n off sc = Inr (concat (map f cs))"
proof -
  have "map (\<lambda>child. FigmaNode child off sc) cs = map Inr (map f cs)"
    using assms(4) by simp
  then show ?thesis
    using assms(1-3) by (simp add: FigmaNode_other concat_results_Inr del: map_map)
qed

text \<open>
  C3. Every RECTANGLE node is to emit exactly one Rect. The node \<open>uncoloured_rect\<close>, a
  RECTANGLE whose first fill is SOLID and has no \<^verbatim>\<open>color\<close>, emits none: the read of
  \<^verbatim>\<open>node.fills[0].color.r\<close> raises a TypeError while the style of its \<^verbatim>\<open>div\<close> is built.
  On every other node the dispatch is the one the lemmas above state.
\<close>

theorem FigmaNode_rectangle_without_color:
  "FigmaNode uncoloured_rect off sc = Inl TypeError"
  by (simp add: resolveFill_def)

subsection \<open>Totality\<close>

lemma concat_results_total:
  "(\<And>r. r \<in> set rs \<Longrightarrow> \<exists>ps. r = Inr ps) \<Longrightarrow> \<exists>ps. concat_results rs = Inr ps"
proof (induction rs)
  case Nil
  then show ?case by simp
next
  case (Cons r rs)
  then obtain ps qs where "r = Inr ps" "concat_results rs = Inr qs"
    by (metis list.set_intros)
  then show ?case by simp
qed

text \<open>
  The projection of a tree returns a list of primitives whenever the fill of each of its
  RECTANGLE nodes resolves; nothing else in a node can make it fail.
\<close>

lemma FigmaNode_total:
  "(\<And>n. n \<in> set (preorder page) \<Longrightarrow> node_type n = ''RECTANGLE'' \<Longrightarrow>
      \<exists>bg. resolveFill (fills n) = Inr bg)
    \<Longrightarrow> \<exists>ps. FigmaNode page off sc = Inr ps"
proof (induction page off sc rule: FigmaNode.induct)
  case (1 i nm ty bb fl st ch kids off sc)
  let ?n = "DocumentNode i nm ty bb fl st ch kids"
  show ?case
  proof (cases "ty = ''RECTANGLE''")
    case True
    with "1.prems" [of ?n] obtain bg where "resolveFill fl = Inr bg" by auto
    with True show ?thesis by simp
  next
    case notrect: False
    show ?thesis
    proof (cases "ty = ''TEXT''")
      case True
      with notrect show ?thesis by simp
    next
      case False
      show ?thesis
      proof (cases kids)
        case None
        with notrect False show ?thesis by simp
      next
        case (Some cs)
        have "\<exists>ps. FigmaNode c off sc = Inr ps" if "c \<in> set cs" for c
          using "1.IH" [OF notrect False Some that] "1.prems" that Some by auto
        then have "\<exists>ps. concat_results (map (\<lambda>child. FigmaNode child off sc) cs) = Inr ps"
          by (intro concat_results_total) auto
        with notrect False Some show ?thesis by simp
      qed
    qed
  qed
qed

text \<open>
  C5. \<open>FigmaNode\<close> is to raise no error on any node shape, a fill with no colour
  included. A page that holds a RECTANGLE whose first fill is SOLID and has no
  \<^verbatim>\<open>color\<close> is not rendered: the TypeError of that node ends the rendering of the page,
  the two well-formed nodes beside it included.
\<close>

theorem FigmaNode_page_raises:
  "FigmaNode
     (DocumentNode ''0:4'' ''Page 4'' ''CANVAS'' None None None None
        (Some [sample_text, uncoloured_rect, sample_rect])) off sc = Inl TypeError"
  by (simp add: resolveFill_def)

section \<open>The style resolver\<close>

lemma resolveFill_cases:
  "resolveFill None = Inr Transparent"
  "resolveFill (Some []) = Inr Transparent"
  "fill_type f \<noteq> ''SOLID'' \<Longrightarrow> resolveFill (Some (f # fs)) = Inr Transparent"
  "fill_type f = ''SOLID'' \<Longrightarrow> fill_color f = Some c \<Longrightarrow>
     resolveFill (Some (f # fs)) =
       Inr (RGBA (Math_round (color_r c * 255)) (Math_round (color_g c * 255))
              (Math_round (color_b c * 255)) (color_a c))"
  by (simp_all add: resolveFill_def)

lemma resolveFill_red:
  "resolveFill (Some [\<lparr>fill_type = ''SOLID'',
       fill_color = Some \<lparr>color_r = 1, color_g = 0, color_b = 0, color_a = 1 / 2\<rparr>\<rparr>]) =
   Inr (RGBA 255 0 0 (1 / 2))"
  by (simp add: resolveFill_def Math_round_def)

lemma Math_round_channel:
  "0 \<le> v \<Longrightarrow> v \<le> 1 \<Longrightarrow> 0 \<le> Math_round (v * 255) \<and> Math_round (v * 255) \<le> 255"
  unfolding Math_round_def by (auto simp: le_floor_iff floor_le_iff)

text \<open>
  C6. A first fill whose colour is missing is to resolve to Transparent. On the fill
  list \<^verbatim>\<open>[{type: 'SOLID'}]\<close> the code raises a TypeError instead: the guard tests
  \<^verbatim>\<open>fills\<close>, \<^verbatim>\<open>fills[0]\<close> and the type, not \<^verbatim>\<open>fills[0].color\<close>. The other cases resolve
  as the lemmas above state.
\<close>

theorem resolveFill_solid_without_color:
  "resolveFill (Some [\<lparr>fill_type = ''SOLID'', fill_color = None\<rparr>]) = Inl TypeError"
  by (simp add: resolveFill_def)

text \<open>
  C8, as the code has it. \<open>resolveTextStyle\<close> returns the font family \<open>sans-serif\<close> and
  the font size 16 when the style is absent, and the respective default when a field of
  the style is absent; a font size that is present and not 0 is returned as it is,
  without validation (a negative one too); a font size of 0 is falsy for
  \<^verbatim>\<open>fontSize || 16\<close> and is replaced by 16.
\<close>

theorem resolveTextStyle_defaults:
  "resolveTextStyle None = (''sans-serif'', 16) \<and>
   (fontFamily st = None \<longrightarrow> fst (resolveTextStyle (Some st)) = ''sans-serif'') \<and>
   (fontSize st = None \<longrightarrow> snd (resolveTextStyle (Some st)) = 16) \<and>
   (\<forall>v. fontSize st = Some v \<longrightarrow> v \<noteq> 0 \<longrightarrow> snd (resolveTextStyle (Some st)) = v) \<and>
   (fontSize st = Some 0 \<longrightarrow> snd (resolveTextStyle (Some st)) = 16)"
  by (simp add: resolveTextStyle_def or_num_def or_str_def)

theorem resolveTextStyle_defaults_witness:
  "snd (resolveTextStyle (Some \<lparr>fontSize = Some (- 3), fontFamily = None\<rparr>)) = - 3 \<and>
   fst (resolveTextStyle (Some \<lparr>fontSize = Some (- 3), fontFamily = None\<rparr>)) = ''sans-serif'' \<and>
   snd (resolveTextStyle (Some \<lparr>fontSize = None, fontFamily = Some ''Inter''\<rparr>)) = 16"
  using resolveTextStyle_defaults [of "\<lparr>fontSize = Some (- 3), fontFamily = None\<rparr>"]
    resolveTextStyle_defaults [of "\<lparr>fontSize = None, fontFamily = Some ''Inter''\<rparr>"]
  by simp

text \<open>A font size of 0 is present in the style, and the resolved size is 16, not 0.\<close>

theorem resolveTextStyle_zero_fontSize:
  "snd (resolveTextStyle (Some \<lparr>fontSize = Some 0, fontFamily = Some ''Inter''\<rparr>)) = 16 \<and>
   (16::real) \<noteq> 0"
  by (simp add: resolveTextStyle_def or_num_def)

end
